theory Spec2Isabelle
  imports Main "HOL-Library.Sublist"
begin

section \<open>Python values, exceptions and log records\<close>

text \<open>
  Strings are ASCII texts (\<open>string\<close>). A cell of the history table holds a Python
  object: a \<open>str\<close>, an \<open>int\<close>, a \<open>float\<close>, a \<open>bool\<close> or the missing value NaN.
  No float arithmetic is modelled: a finite float is represented by the text that
  Python's \<open>repr\<close> gives for it (\<open>repr\<close> is injective on floats).
\<close>

datatype pyval = PStr string | PInt int | PFloat string | PBool bool | PNaN

datatype pynum = NInt int | NFloat string

definition digit :: "nat \<Rightarrow> char" where
  "digit n = ''0123456789'' ! n"

fun show_nat :: "nat \<Rightarrow> string" where
  "show_nat n = (if n < 10 then [digit n] else show_nat (n div 10) @ [digit (n mod 10)])"

declare show_nat.simps [simp del]

definition show_int :: "int \<Rightarrow> string" where
  "show_int i = (if i < 0 then CHR ''-'' # show_nat (nat (- i)) else show_nat (nat i))"

text \<open>\<open>str(x)\<close> for a cell, as \<open>DataFrame.astype(str)\<close> applies it.\<close>

fun py_str :: "pyval \<Rightarrow> string" where
  "py_str (PStr s) = s"
| "py_str (PInt i) = show_int i"
| "py_str (PFloat r) = r"
| "py_str (PBool b) = (if b then ''True'' else ''False'')"
| "py_str PNaN = ''nan''"

fun num_repr :: "pynum \<Rightarrow> string" where
  "num_repr (NInt i) = show_int i"
| "num_repr (NFloat r) = r"

text \<open>\<open>', '.join(parts)\<close> and \<open>str(inputs)\<close> for a list of numbers.\<close>

fun join_comma :: "string list \<Rightarrow> string" where
  "join_comma [] = []"
| "join_comma [x] = x"
| "join_comma (x # y # ys) = x @ '', '' @ join_comma (y # ys)"

definition list_str :: "pynum list \<Rightarrow> string" where
  "list_str xs = ''['' @ join_comma (map num_repr xs) @ '']''"

text \<open>
  Exceptions. \<open>SystemExit\<close> and \<open>KeyboardInterrupt\<close> derive from \<open>BaseException\<close> only,
  so a handler \<open>except Exception\<close> lets them pass; every other class below derives
  from \<open>Exception\<close>. The argument is the text of \<open>str(e)\<close>.
\<close>

datatype exit_arg = ExitNone | ExitInt int | ExitStr string

datatype pyexception =
    Exception string
  | TypeError string
  | KeyError string
  | FileNotFoundError string
  | ReError string
  | SystemExit exit_arg
  | KeyboardInterrupt

fun is_Exception :: "pyexception \<Rightarrow> bool" where
  "is_Exception (SystemExit a) = False"
| "is_Exception KeyboardInterrupt = False"
| "is_Exception e = True"

fun is_TypeError :: "pyexception \<Rightarrow> bool" where
  "is_TypeError (TypeError m) = True"
| "is_TypeError e = False"

fun exit_arg_str :: "exit_arg \<Rightarrow> string" where
  "exit_arg_str ExitNone = ''None''"
| "exit_arg_str (ExitInt i) = show_int i"
| "exit_arg_str (ExitStr s) = s"

fun exc_str :: "pyexception \<Rightarrow> string" where
  "exc_str (Exception m) = m"
| "exc_str (TypeError m) = m"
| "exc_str (KeyError m) = m"
| "exc_str (FileNotFoundError m) = m"
| "exc_str (ReError m) = m"
| "exc_str (SystemExit a) = exit_arg_str a"
| "exc_str KeyboardInterrupt = []"

definition quoted :: "string \<Rightarrow> string" where
  "quoted s = CHR 0x27 # s @ [CHR 0x27]"

datatype level = DEBUG | INFO | WARNING | ERROR

datatype logrec = Log level string

section \<open>The pandas table\<close>

text \<open>
  A \<open>DataFrame\<close> is its column names and its rows; a row is its index label and its
  cells, one per column. Cells keep the Python object they were given: the numeric
  dtype unification that pandas applies inside one column is not modelled.
\<close>

record frame =
  df_columns :: "string list"
  df_rows :: "(int \<times> pyval list) list"

definition labels :: "frame \<Rightarrow> int list" where
  "labels d = map fst (df_rows d)"

definition entries :: "frame \<Rightarrow> pyval list list" where
  "entries d = map snd (df_rows d)"

definition len :: "frame \<Rightarrow> nat" where
  "len d = length (df_rows d)"

definition range_index :: "nat \<Rightarrow> int list" where
  "range_index n = map int [0..<n]"

text \<open>\<open>pd.DataFrame(columns=cols)\<close> and \<open>pd.DataFrame()\<close>.\<close>

definition DataFrame_columns :: "string list \<Rightarrow> frame" where
  "DataFrame_columns cols = \<lparr>df_columns = cols, df_rows = []\<rparr>"

definition DataFrame_empty :: frame where
  "DataFrame_empty = \<lparr>df_columns = [], df_rows = []\<rparr>"

text \<open>\<open>pd.DataFrame([new_row])\<close> for one dict: its keys are the columns, the label is 0.\<close>

definition DataFrame_row :: "(string \<times> pyval) list \<Rightarrow> frame" where
  "DataFrame_row kvs = \<lparr>df_columns = map fst kvs, df_rows = [(0, map snd kvs)]\<rparr>"

text \<open>
  \<open>pd.concat([a, b], ignore_index=True)\<close>: the columns of \<open>a\<close>, then those of \<open>b\<close>
  that \<open>a\<close> lacks; each row is laid out on the joint columns, NaN where its frame
  has no such column; the labels are renumbered from 0.
\<close>

definition reindex_cells :: "string list \<Rightarrow> string list \<Rightarrow> pyval list \<Rightarrow> pyval list" where
  "reindex_cells old new cells =
     map (\<lambda>c. case map_of (zip old cells) c of Some v \<Rightarrow> v | None \<Rightarrow> PNaN) new"

definition relabel :: "pyval list list \<Rightarrow> (int \<times> pyval list) list" where
  "relabel es = zip (range_index (length es)) es"

definition concat_ignore_index :: "frame \<Rightarrow> frame \<Rightarrow> frame" where
  "concat_ignore_index a b =
     (let cols = df_columns a @ filter (\<lambda>c. c \<notin> set (df_columns a)) (df_columns b)
      in \<lparr>df_columns = cols,
          df_rows = relabel (map (reindex_cells (df_columns a) cols) (entries a)
                           @ map (reindex_cells (df_columns b) cols) (entries b))\<rparr>)"

text \<open>
  \<open>df.drop(label)\<close> removes every row that carries the label and raises \<open>KeyError\<close>
  when no row does; \<open>reset_index(drop=True)\<close> renumbers the labels from 0;
  \<open>df.tail(n)\<close> keeps the last \<open>n\<close> rows; \<open>df[mask]\<close> keeps the rows whose mask is true.
\<close>

definition drop_label :: "int \<Rightarrow> frame \<Rightarrow> pyexception + frame" where
  "drop_label l d =
     (if l \<in> set (labels d)
      then Inr (d\<lparr>df_rows := filter (\<lambda>r. fst r \<noteq> l) (df_rows d)\<rparr>)
      else Inl (KeyError (''['' @ show_int l @ ''] not found in axis'')))"

definition reset_index :: "frame \<Rightarrow> frame" where
  "reset_index d = d\<lparr>df_rows := relabel (entries d)\<rparr>"


definition select_rows :: "bool list \<Rightarrow> frame \<Rightarrow> frame" where
  "select_rows bs d = d\<lparr>df_rows := map snd (filter fst (zip bs (df_rows d)))\<rparr>"

section \<open>Files, the environment and paths\<close>

text \<open>
  A CSV file is modelled by its records, the header first, each record the list of
  its field texts. The quoting that the csv dialect applies to a field with commas,
  quotes or line breaks is undone by every reader and is not modelled. The file
  system maps a path to the file stored there; the environment maps a variable to
  its value.

  What pandas writes for a table and what it reads from a file are parameters:
  \<open>format_csv\<close> is what \<open>to_csv(path, index=False)\<close> puts into the file, \<open>parse_csv\<close>
  is the columns and records that \<open>read_csv(path)\<close> finds, or the exception it
  raises. Results stated for every \<open>io\<close> hold whatever pandas writes and reads.
\<close>

type_synonym csv_file = "string list list"

record pandas_io =
  parse_csv :: "csv_file \<Rightarrow> pyexception + (string list \<times> pyval list list)"
  format_csv :: "string list \<Rightarrow> pyval list list \<Rightarrow> csv_file"

text \<open>
  \<open>pd.read_csv(path)\<close> is called without \<open>index_col\<close>: the table read from a
  file whose records have as many fields as its header gets the labels 0, 1, 2, ...
\<close>

definition read_csv :: "pandas_io \<Rightarrow> csv_file \<Rightarrow> pyexception + frame" where
  "read_csv io text =
     (case parse_csv io text of
        Inl e \<Rightarrow> Inl e
      | Inr (cols, recs) \<Rightarrow> Inr \<lparr>df_columns = cols, df_rows = relabel recs\<rparr>)"

definition to_csv :: "pandas_io \<Rightarrow> frame \<Rightarrow> csv_file" where
  "to_csv io d = format_csv io (df_columns d) (entries d)"

text \<open>
  \<open>os.path.dirname\<close> (posixpath): the part before the last slash, without its
  trailing slashes unless it consists of slashes only.
\<close>

text \<open>\<open>os.environ.get(key, default)\<close>.\<close>

definition environ_get :: "(string \<rightharpoonup> string) \<Rightarrow> string \<Rightarrow> string \<Rightarrow> string" where
  "environ_get env key dflt = (case env key of Some v \<Rightarrow> v | None \<Rightarrow> dflt)"

definition rstrip_slash :: "string \<Rightarrow> string" where
  "rstrip_slash s = rev (dropWhile (\<lambda>c. c = CHR ''/'') (rev s))"

definition dirname :: "string \<Rightarrow> string" where
  "dirname p =
     (let head = rev (dropWhile (\<lambda>c. c \<noteq> CHR ''/'') (rev p))
      in if head \<noteq> [] \<and> \<not> list_all (\<lambda>c. c = CHR ''/'') head then rstrip_slash head else head)"

text \<open>
  \<open>os.makedirs(name, exist_ok=True)\<close> raises \<open>FileNotFoundError\<close> for the empty
  name. Directories are not modelled otherwise: creating one always succeeds.
\<close>

definition makedirs :: "string \<Rightarrow> pyexception + unit" where
  "makedirs name =
     (if name = [] then Inl (FileNotFoundError (''[Errno 2] No such file or directory: '' @ quoted []))
      else Inr ())"

section \<open>HistoryManager\<close>

text \<open>
  Inside the body of \<open>class HistoryManager\<close> Python rewrites every identifier that
  starts with two underscores and does not end with two (a private name) to
  \<open>_HistoryManager\<close> followed by the identifier. A string literal is not an identifier
  and is left as it is.
\<close>

definition mangle :: "string \<Rightarrow> string \<Rightarrow> string" where
  "mangle cls name =
     (let c = dropWhile (\<lambda>x. x = CHR ''_'') cls
      in if take 2 name = ''__'' \<and> \<not> suffix ''__'' name \<and> c \<noteq> []
         then CHR ''_'' # c @ name else name)"

text \<open>
  The object: \<open>logger\<close> holds the records emitted through \<open>self.logger\<close>, \<open>attrs\<close> the
  boolean attributes that are set by name. An object that \<open>__new__\<close> has just made has
  no \<open>history_file\<close>, \<open>columns\<close> or \<open>df\<close> yet: the record holds empty placeholders, which
  \<open>__init__\<close> overwrites before anything reads them.
\<close>

record history_manager =
  logger :: "logrec list"
  history_file :: string
  columns :: "string list"
  df :: frame
  attrs :: "string \<rightharpoonup> bool"

definition emit :: "level \<Rightarrow> string \<Rightarrow> history_manager \<Rightarrow> history_manager" where
  "emit l m self = self\<lparr>logger := logger self @ [Log l m]\<rparr>"

definition blank_object :: history_manager where
  "blank_object = \<lparr>logger = [], history_file = [], columns = [],
                   df = DataFrame_empty, attrs = Map.empty\<rparr>"

text \<open>\<open>_load_history\<close>: \<open>Inl\<close> is the exception it re-raises after logging it.\<close>

definition load_history ::
  "pandas_io \<Rightarrow> (string \<rightharpoonup> csv_file) \<Rightarrow> history_manager \<Rightarrow> pyexception \<times> history_manager + history_manager"
where
  "load_history io files self =
     (case files (history_file self) of
        Some text \<Rightarrow>
          (case read_csv io text of
             Inl e \<Rightarrow>
               (if is_Exception e
                then Inl (e, emit ERROR (''Failed to load history file: '' @ exc_str e) self)
                else Inl (e, self))
           | Inr d \<Rightarrow>
               Inr (emit INFO (''History loaded from '' @ history_file self) (self\<lparr>df := d\<rparr>)))
      | None \<Rightarrow>
          Inr (emit INFO (''History file not found, creating new file: '' @ quoted (history_file self))
                 (self\<lparr>df := DataFrame_columns (columns self)\<rparr>)))"

text \<open>
  \<open>__init__\<close>. The guard reads the attribute named by the string literal
  \<open>'__initialized'\<close>; the assignment at the end is an identifier inside the class body
  and so sets the mangled name. \<open>Inl\<close> is an exception that \<open>except Exception\<close> does not
  catch.
\<close>

definition init ::
  "pandas_io \<Rightarrow> (string \<rightharpoonup> string) \<Rightarrow> (string \<rightharpoonup> csv_file) \<Rightarrow> history_manager \<Rightarrow> pyexception + history_manager"
where
  "init io env files self =
     (if \<not> (case attrs self ''__initialized'' of Some b \<Rightarrow> b | None \<Rightarrow> False) then
        (let s1 = emit INFO ''History Manager initialised'' self;
             s2 = s1\<lparr>history_file :=
                       environ_get env ''HISTORY_FILE'' ''data/calculation_history.csv''\<rparr>;
             s3 = s2\<lparr>columns := [''timestamp'', ''operation'', ''inputs'', ''result'']\<rparr>
         in case load_history io files s3 of
              Inr s4 \<Rightarrow>
                Inr ((emit INFO ''History manager initialised successfully with history file: {self.history_file}'' s4)
                       \<lparr>attrs := (attrs s4)(mangle ''HistoryManager'' ''__initialized'' \<mapsto> True)\<rparr>)
            | Inl (e, s4) \<Rightarrow>
                (if is_Exception e
                 then Inr ((emit WARNING (''could not load history file: '' @ exc_str e) s4)
                        \<lparr>df := DataFrame_columns (columns s4),
                          attrs := (attrs s4)(mangle ''HistoryManager'' ''__initialized'' \<mapsto> True)\<rparr>)
                 else Inl e))
      else Inr self)"

text \<open>
  \<open>add_calculation\<close>; \<open>now\<close> is the text of
  \<open>datetime.now().strftime("%Y-%m-%d %H:%M:%S")\<close>. Nothing in the body raises in this
  model, so the handler that returns \<open>False\<close> is never entered. The logged text of the
  new row is left out of the record.
\<close>

definition add_calculation ::
  "string \<Rightarrow> string \<Rightarrow> pynum list \<Rightarrow> pyval \<Rightarrow> history_manager \<Rightarrow> bool \<times> history_manager"
where
  "add_calculation now operation inputs result self =
     (let new_row = [(''timestamp'', PStr now), (''operation'', PStr operation),
                     (''inputs'', PStr (list_str inputs)), (''result'', result)];
          s1 = self\<lparr>df := concat_ignore_index (df self) (DataFrame_row new_row)\<rparr>
      in (True, emit INFO ''Calculation added to history: '' s1))"

text \<open>\<open>save_history\<close> returns its result, the object and the file system.\<close>

definition save_history ::
  "pandas_io \<Rightarrow> (string \<rightharpoonup> csv_file) \<Rightarrow> history_manager \<Rightarrow> bool \<times> history_manager \<times> (string \<rightharpoonup> csv_file)"
where
  "save_history io files self =
     (case makedirs (dirname (history_file self)) of
        Inl e \<Rightarrow> (False, emit ERROR (''Failed to save history file: '' @ exc_str e) self, files)
      | Inr u \<Rightarrow>
          (True, emit INFO (''History saved to '' @ history_file self) self,
           files(history_file self \<mapsto> to_csv io (df self))))"


text \<open>
  \<open>clear_history\<close> has no \<open>return\<close> on its success path: the result is Python's
  \<open>None\<close>, written \<open>None\<close> here; \<open>Some b\<close> is the boolean \<open>b\<close>. Building an empty frame
  does not raise, so the handler that returns \<open>False\<close> is never entered.
\<close>

definition clear_history :: "history_manager \<Rightarrow> bool option \<times> history_manager" where
  "clear_history self =
     (None, emit INFO ''History Cleared'' (self\<lparr>df := DataFrame_columns (columns self)\<rparr>))"

text \<open>\<open>delete_entry\<close>: the \<open>KeyError\<close> of \<open>drop\<close> is caught by \<open>except Exception\<close>.\<close>

definition delete_entry :: "int \<Rightarrow> history_manager \<Rightarrow> bool \<times> history_manager" where
  "delete_entry index self =
     (if 0 \<le> index \<and> index < int (len (df self)) then
        (case drop_label index (df self) of
           Inr d \<Rightarrow>
             (True, emit INFO (''Entry deleted from history: '' @ show_int index)
                      (self\<lparr>df := reset_index d\<rparr>))
         | Inl e \<Rightarrow>
             (False, emit ERROR (''Failed to delete entry from history: '' @ exc_str e) self))
      else (False, emit WARNING (''Index out of range: '' @ show_int index) self))"

subsection \<open>Searching\<close>

text \<open>
  \<open>Series.str.contains(term, case=False)\<close> has \<open>regex=True\<close> by default: it compiles
  \<open>term\<close> as a regular expression of Python's \<open>re\<close> with the flag \<open>IGNORECASE\<close> and
  searches each text for a match. The model covers the patterns made of ordinary
  characters and the dot, and the patterns that start with a repetition operator,
  which \<open>re\<close> rejects (nothing to repeat); for every other pattern it gives no answer
  (\<open>Unmodelled\<close>).
\<close>

definition py_lower :: "char \<Rightarrow> char" where
  "py_lower c =
     (case map_of (zip ''ABCDEFGHIJKLMNOPQRSTUVWXYZ'' ''abcdefghijklmnopqrstuvwxyz'') c of
        Some l \<Rightarrow> l | None \<Rightarrow> c)"

definition lower :: "string \<Rightarrow> string" where
  "lower s = map py_lower s"

definition re_special :: "char list" where
  "re_special = ''.^$*+?{}[]|()'' @ [CHR 0x5C]"

datatype re_atom = Lit char | AnyChar

datatype re_result = Compiled "re_atom list" | Invalid string | Unmodelled

definition re_compile :: "string \<Rightarrow> re_result" where
  "re_compile pat =
     (if pat \<noteq> [] \<and> hd pat \<in> set ''*+?'' then Invalid ''nothing to repeat at position 0''
      else if list_all (\<lambda>c. c \<notin> set re_special \<or> c = CHR ''.'') pat
      then Compiled (map (\<lambda>c. if c = CHR ''.'' then AnyChar else Lit c) pat)
      else Unmodelled)"

text \<open>Under \<open>IGNORECASE\<close> a literal matches either case; the dot matches all but newline.\<close>

fun atom_match :: "re_atom \<Rightarrow> char \<Rightarrow> bool" where
  "atom_match (Lit c) x = (py_lower c = py_lower x)"
| "atom_match AnyChar x = (x \<noteq> CHR 0x0A)"

fun match_here :: "re_atom list \<Rightarrow> string \<Rightarrow> bool" where
  "match_here [] s = True"
| "match_here (a # as) [] = False"
| "match_here (a # as) (x # xs) = (atom_match a x \<and> match_here as xs)"

fun re_search :: "re_atom list \<Rightarrow> string \<Rightarrow> bool" where
  "re_search as [] = match_here as []"
| "re_search as (x # xs) = (match_here as (x # xs) \<or> re_search as xs)"

text \<open>
  \<open>search_history\<close>. \<open>None\<close> stands for a term outside the modelled patterns. On a
  frame without rows \<open>apply\<close> does not run the row function on data, so the term is
  never compiled, and \<open>df[mask]\<close> is the frame without rows again. A term that does
  not compile raises \<open>re.error\<close> in the row function; the handler returns
  \<open>pd.DataFrame()\<close>.
\<close>

definition row_mask :: "re_atom list \<Rightarrow> pyval list \<Rightarrow> bool" where
  "row_mask as cells = list_ex (re_search as) (map py_str cells)"

definition search_history :: "string \<Rightarrow> history_manager \<Rightarrow> (frame \<times> history_manager) option" where
  "search_history term self =
     (if df_rows (df self) = []
      then Some (df self, emit INFO (''Search history for term: '' @ term) self)
      else case re_compile term of
             Unmodelled \<Rightarrow> None
           | Invalid m \<Rightarrow>
               Some (DataFrame_empty, emit ERROR (''Failed to search history: '' @ m) self)
           | Compiled as \<Rightarrow>
               Some (select_rows (map (row_mask as) (entries (df self))) (df self),
                     emit INFO (''Search history for term: '' @ term) self))"



subsection \<open>The singleton\<close>

text \<open>
  The process: its environment, its files and the class attribute
  \<open>_HistoryManager__instance\<close>, which is \<open>None\<close> or the one object. Every reference to
  a \<open>HistoryManager\<close> is a reference to that object, so a method call through any of
  them updates \<open>cls_instance\<close>.
\<close>

record process =
  environ :: "string \<rightharpoonup> string"
  files :: "string \<rightharpoonup> csv_file"
  cls_instance :: "history_manager option"

text \<open>
  \<open>__new__\<close> makes the object on the first call only and sets its attribute
  \<open>__initialized\<close>, an identifier inside the class body, hence the mangled name.
\<close>

definition new_object :: history_manager where
  "new_object = blank_object\<lparr>attrs := [mangle ''HistoryManager'' ''__initialized'' \<mapsto> False]\<rparr>"

definition new :: "process \<Rightarrow> history_manager \<times> process" where
  "new p =
     (case cls_instance p of
        None \<Rightarrow> (new_object, p\<lparr>cls_instance := Some new_object\<rparr>)
      | Some obj \<Rightarrow> (obj, p))"

text \<open>The call \<open>HistoryManager()\<close>: \<open>__new__\<close>, then \<open>__init__\<close> on what it returned.\<close>

definition HistoryManager :: "pandas_io \<Rightarrow> process \<Rightarrow> pyexception + history_manager \<times> process" where
  "HistoryManager io p =
     (let (obj, p1) = new p
      in case init io (environ p1) (files p1) obj of
           Inl e \<Rightarrow> Inl e
         | Inr obj' \<Rightarrow> Inr (obj', p1\<lparr>cls_instance := Some obj'\<rparr>))"

text \<open>
  The part of \<open>App.__init__\<close> that touches the history (lines 35 to 39). Creating the
  directories, reading the configuration and setting up logging come before and are
  left out.
\<close>

definition App_init :: "pandas_io \<Rightarrow> string \<Rightarrow> process \<Rightarrow> pyexception + process" where
  "App_init io now p =
     (case HistoryManager io p of
        Inl e \<Rightarrow> Inl e
      | Inr (h1, p1) \<Rightarrow>
     (case HistoryManager io p1 of
        Inl e \<Rightarrow> Inl e
      | Inr (h2, p2) \<Rightarrow>
     (let (r, h2') = add_calculation now ''add'' [NInt 1, NInt 2] (PInt 3) h2;
          p2' = p2\<lparr>cls_instance := Some h2'\<rparr>
      in case HistoryManager io p2' of
           Inl e \<Rightarrow> Inl e
         | Inr (h3, p3) \<Rightarrow>
             (let (ok, h3', files') = save_history io (files p3) h3
              in Inr (p3\<lparr>cls_instance := Some h3', files := files'\<rparr>)))))"

text \<open>
  The states of the object that the methods of the class produce, starting from the
  object that \<open>__new__\<close> makes.
\<close>

inductive reachable :: "history_manager \<Rightarrow> bool" where
  constructed:
    "init io env fs new_object = Inr s \<Longrightarrow> reachable s"
| constructed_again: "reachable s \<Longrightarrow> init io env fs s = Inr s' \<Longrightarrow> reachable s'"
| added: "reachable s \<Longrightarrow> reachable (snd (add_calculation now operation inputs result s))"
| saved: "reachable s \<Longrightarrow> reachable (fst (snd (save_history io fs s)))"
| cleared: "reachable s \<Longrightarrow> reachable (snd (clear_history s))"
| deleted: "reachable s \<Longrightarrow> reachable (snd (delete_entry i s))"
| searched: "reachable s \<Longrightarrow> search_history term s = Some (d, s') \<Longrightarrow> reachable s'"


section \<open>The application: plugin loader and dispatch loop\<close>

text \<open>
  The application object: the table of the command handler
  (\<open>self.command_handler.commands\<close>), what has been written to standard output, the
  records of the root logger, and the rest of the world that commands act on.
\<close>

record ('c, 'w) app =
  commands :: "string \<rightharpoonup> 'c"
  stdout :: "string list"
  logging :: "logrec list"
  world :: 'w

definition log_root :: "level \<Rightarrow> string \<Rightarrow> ('c, 'w) app \<Rightarrow> ('c, 'w) app" where
  "log_root l m a = a\<lparr>logging := logging a @ [Log l m]\<rparr>"

definition print :: "string \<Rightarrow> ('c, 'w) app \<Rightarrow> ('c, 'w) app" where
  "print m a = a\<lparr>stdout := stdout a @ [m]\<rparr>"

text \<open>
  Modelled from the spec: \<open>CommandHandler.register_command\<close> (the package
  \<open>app.commands\<close> is not among the sources) stores the command under the name and
  overwrites what was there; it has no error conditions.
\<close>

definition register_command :: "string \<Rightarrow> 'c \<Rightarrow> ('c, 'w) app \<Rightarrow> ('c, 'w) app" where
  "register_command name c a = a\<lparr>commands := (commands a)(name \<mapsto> c)\<rparr>"

subsection \<open>load_plugins\<close>

text \<open>
  What \<open>dir(plugin_module)\<close> can hold: an object that is no class (\<open>issubclass\<close>
  raises \<open>TypeError\<close>), a class outside the \<open>Command\<close> hierarchy, the class \<open>Command\<close>
  itself, or a subclass of \<open>Command\<close>. Of a subclass the loader uses the name, the
  parameter names of \<open>inspect.signature(item.__init__)\<close> (or the exception that call
  raises) and the constructor; the argument of the constructor says whether it is
  called with the command handler.
\<close>

datatype 'c pyitem =
    NotAClass
  | OtherClass
  | CommandBase
  | CommandClass string "pyexception + string list" "bool \<Rightarrow> pyexception + 'c"

text \<open>
  What \<open>pkgutil.iter_modules\<close> yields for one entry of the plugin directory, with
  what \<open>importlib.import_module\<close> does for it: raise, or give a module, listed as the
  names of \<open>dir\<close> with their objects.
\<close>

record 'c plugin =
  plugin_name :: string
  is_pkg :: bool
  import_module :: "pyexception + (string \<times> 'c pyitem) list"

text \<open>
  The two handlers of the inner \<open>try\<close>: \<open>except TypeError: continue\<close> first, then
  \<open>except Exception\<close>, which logs twice. The first component of the result is the
  exception that leaves \<open>load_plugins\<close>, if any.
\<close>

definition item_failed ::
  "string \<Rightarrow> string \<Rightarrow> pyexception \<Rightarrow> ('c, 'w) app \<Rightarrow> pyexception option \<times> ('c, 'w) app"
where
  "item_failed pname item_name e a =
     (if is_TypeError e then (None, a)
      else if is_Exception e
      then (None, log_root ERROR (exc_str e)
                    (log_root ERROR (''Failed to register command: '' @ item_name
                                       @ '' in plugin: '' @ pname) a))
      else (Some e, a))"

definition load_item ::
  "string \<Rightarrow> string \<times> 'c pyitem \<Rightarrow> ('c, 'w) app \<Rightarrow> pyexception option \<times> ('c, 'w) app"
where
  "load_item pname it a =
     (case snd it of
        NotAClass \<Rightarrow> item_failed pname (fst it) (TypeError ''issubclass() arg 1 must be a class'') a
      | OtherClass \<Rightarrow> (None, a)
      | CommandBase \<Rightarrow> (None, a)
      | CommandClass cname sig ctor \<Rightarrow>
          (let a1 = log_root DEBUG (''Found command: '' @ cname @ '' in plugin: '' @ pname) a
           in case sig of
                Inl e \<Rightarrow> item_failed pname (fst it) e a1
              | Inr params \<Rightarrow>
                  if ''command_handler'' \<in> set params then
                    (case ctor True of
                       Inl e \<Rightarrow> item_failed pname (fst it) e a1
                     | Inr c \<Rightarrow>
                         (None, log_root INFO (''Registered command: '' @ cname @ '' in plugin: ''
                                                 @ pname @ '' with command handler'')
                                  (register_command pname c a1)))
                  else
                    (case ctor False of
                       Inl e \<Rightarrow> item_failed pname (fst it) e a1
                     | Inr c \<Rightarrow>
                         (None, log_root INFO (''Registered command: '' @ cname @ '' in plugin: '' @ pname)
                                  (register_command pname c a1)))))"

fun load_items ::
  "string \<Rightarrow> (string \<times> 'c pyitem) list \<Rightarrow> ('c, 'w) app \<Rightarrow> pyexception option \<times> ('c, 'w) app"
where
  "load_items pname [] a = (None, a)"
| "load_items pname (it # its) a =
     (case load_item pname it a of
        (Some e, a') \<Rightarrow> (Some e, a')
      | (None, a') \<Rightarrow> load_items pname its a')"

definition load_plugin :: "'c plugin \<Rightarrow> ('c, 'w) app \<Rightarrow> pyexception option \<times> ('c, 'w) app" where
  "load_plugin p a =
     (if is_pkg p then
        (case import_module p of
           Inl e \<Rightarrow>
             (if is_Exception e
              then (None, log_root ERROR (''Failed to load plugin: '' @ plugin_name p) a)
              else (Some e, a))
         | Inr items \<Rightarrow>
             (case load_items (plugin_name p) items
                     (log_root DEBUG (''Loaded Plugin: '' @ plugin_name p) a) of
                (Some e, a') \<Rightarrow> (Some e, a')
              | (None, a') \<Rightarrow> (None, log_root INFO ''Completed loading plugins'' a')))
      else (None, a))"

fun load_each :: "'c plugin list \<Rightarrow> ('c, 'w) app \<Rightarrow> pyexception option \<times> ('c, 'w) app" where
  "load_each [] a = (None, a)"
| "load_each (p # ps) a =
     (case load_plugin p a of
        (Some e, a') \<Rightarrow> (Some e, a')
      | (None, a') \<Rightarrow> load_each ps a')"

definition load_plugins :: "'c plugin list \<Rightarrow> ('c, 'w) app \<Rightarrow> pyexception option \<times> ('c, 'w) app" where
  "load_plugins ps a = load_each ps (log_root INFO ''Loading Plugins'' a)"

subsection \<open>start\<close>

text \<open>
  \<open>str.strip()\<close> removes the white space at both ends; \<open>input(">>>")\<close> writes the
  prompt and returns a line or raises. \<open>execute_command\<close> of the command handler is a
  parameter of the loop: given the text and the application it returns the exception
  it raises, if any, and the application as the command left it.
\<close>

definition py_isspace :: "char \<Rightarrow> bool" where
  "py_isspace c =
     (c \<in> set [CHR 0x20, CHR 0x09, CHR 0x0A, CHR 0x0B, CHR 0x0C, CHR 0x0D,
               CHR 0x1C, CHR 0x1D, CHR 0x1E, CHR 0x1F])"

definition strip :: "string \<Rightarrow> string" where
  "strip s = rev (dropWhile py_isspace (rev (dropWhile py_isspace s)))"

datatype input_event = Line string | InputRaises pyexception

text \<open>
  The body of the \<open>try\<close> in one turn of the loop: the value of the variable
  \<open>command\<close> when the body ends, the exception that ends it, if any, and the
  application.
\<close>

definition try_body ::
  "(string \<Rightarrow> ('c, 'w) app \<Rightarrow> pyexception option \<times> ('c, 'w) app) \<Rightarrow> input_event \<Rightarrow> ('c, 'w) app
     \<Rightarrow> string \<times> pyexception option \<times> ('c, 'w) app"
where
  "try_body execute_command ev a =
     (let a0 = print ''>>>'' a
      in case ev of
           InputRaises e \<Rightarrow> ([], Some e, a0)
         | Line l \<Rightarrow>
             (let command = strip l
              in if lower command = ''exit'' then
                   (command, Some (SystemExit (ExitStr ''Exiting the program'')),
                    print ''Exiting the program....''
                      (log_root INFO ''Exit command entered. Exiting the program'' a0))
                 else
                   (let (r, a1) = execute_command command
                                    (log_root DEBUG (''Executing command: '' @ command) a0)
                    in (command, r, a1))))"

datatype 'a outcome = Running 'a | Raised pyexception 'a

text \<open>One turn: the body, then the handler \<open>except Exception\<close>.\<close>

definition turn ::
  "(string \<Rightarrow> ('c, 'w) app \<Rightarrow> pyexception option \<times> ('c, 'w) app) \<Rightarrow> input_event \<Rightarrow> ('c, 'w) app
     \<Rightarrow> ('c, 'w) app outcome"
where
  "turn execute_command ev a =
     (case try_body execute_command ev a of
        (command, None, a') \<Rightarrow> Running a'
      | (command, Some e, a') \<Rightarrow>
          if is_Exception e
          then Running (log_root ERROR
                 (''An error occurred while executing command ''
                    @ quoted (if command \<noteq> [] then command else ''<unknown>'')
                    @ '': '' @ exc_str e) a')
          else Raised e a')"

text \<open>
  \<open>while True\<close> over a script of what \<open>input\<close> does in each turn. When the script is
  used up the loop has not ended: the result is \<open>Running\<close>.
\<close>

fun loop ::
  "(string \<Rightarrow> ('c, 'w) app \<Rightarrow> pyexception option \<times> ('c, 'w) app) \<Rightarrow> input_event list \<Rightarrow> ('c, 'w) app
     \<Rightarrow> ('c, 'w) app outcome"
where
  "loop execute_command [] a = Running a"
| "loop execute_command (ev # evs) a =
     (case turn execute_command ev a of
        Running a' \<Rightarrow> loop execute_command evs a'
      | Raised e a' \<Rightarrow> Raised e a')"

definition start ::
  "'c plugin list \<Rightarrow> (string \<Rightarrow> ('c, 'w) app \<Rightarrow> pyexception option \<times> ('c, 'w) app)
     \<Rightarrow> input_event list \<Rightarrow> ('c, 'w) app \<Rightarrow> ('c, 'w) app outcome"
where
  "start plugins execute_command script a =
     (case load_plugins plugins (log_root INFO ''Starting Application'' a) of
        (Some e, a') \<Rightarrow> Raised e a'
      | (None, a') \<Rightarrow>
          loop execute_command script
            (print (''Type '' @ [CHR 0x27] @ ''Exit to quit the program'') a'))"

text \<open>
  The status with which the interpreter ends the process when a \<open>SystemExit\<close>
  reaches the top: 0 for \<open>None\<close>, the number for an integer, and for any other object
  1, after writing the object to standard error. Status 0 reports success.
\<close>

fun exit_status :: "exit_arg \<Rightarrow> int" where
  "exit_status ExitNone = 0"
| "exit_status (ExitInt n) = n mod 256"
| "exit_status (ExitStr s) = 1"

text \<open>
  What leaves \<open>start\<close>, and the status of the process when nothing above \<open>start\<close>
  catches it: that of \<open>SystemExit\<close>, or 1 after the traceback of another exception.
\<close>

fun raised_by :: "'a outcome \<Rightarrow> pyexception option" where
  "raised_by (Running a) = None"
| "raised_by (Raised e a) = Some e"

fun process_status :: "'a outcome \<Rightarrow> int option" where
  "process_status (Running a) = None"
| "process_status (Raised (SystemExit x) a) = Some (exit_status x)"
| "process_status (Raised e a) = Some 1"

text \<open>
  For a discovered command type: the exception that its construction and
  registration raise, if any, and whether they succeed.
\<close>

fun failure :: "'c pyitem \<Rightarrow> pyexception option" where
  "failure (CommandClass cname (Inl e) ctor) = Some e"
| "failure (CommandClass cname (Inr params) ctor) =
     (case ctor (''command_handler'' \<in> set params) of Inl e \<Rightarrow> Some e | Inr c \<Rightarrow> None)"
| "failure it = None"

fun constructs :: "'c pyitem \<Rightarrow> bool" where
  "constructs (CommandClass cname (Inr params) ctor) =
     (case ctor (''command_handler'' \<in> set params) of Inl e \<Rightarrow> False | Inr c \<Rightarrow> True)"
| "constructs it = False"

text \<open>A plugin whose failures, if any, are exceptions of class \<open>Exception\<close>.\<close>

definition fails_with_Exception :: "'c plugin \<Rightarrow> bool" where
  "fails_with_Exception p =
     (case import_module p of
        Inl e \<Rightarrow> is_Exception e
      | Inr items \<Rightarrow>
          list_all (\<lambda>it. case failure (snd it) of Some e \<Rightarrow> is_Exception e | None \<Rightarrow> True) items)"

text \<open>
  \<open>grows a a'\<close>: every registered name and every log record of \<open>a\<close> is still in
  \<open>a'\<close>. \<open>handled p a'\<close>: in \<open>a'\<close> the package \<open>p\<close> has got what the loader owes it: an
  error record if its import failed; otherwise, for each of its command types, an
  error record if construction or registration failed with an exception other than
  \<open>TypeError\<close>, and the name of the plugin in the table if they succeeded.
\<close>

definition grows :: "('c, 'w) app \<Rightarrow> ('c, 'w) app \<Rightarrow> bool" where
  "grows a a' = (dom (commands a) \<subseteq> dom (commands a') \<and> set (logging a) \<subseteq> set (logging a'))"

definition item_handled :: "string \<Rightarrow> string \<times> 'c pyitem \<Rightarrow> ('c, 'w) app \<Rightarrow> bool" where
  "item_handled pname it a' =
     ((constructs (snd it) \<longrightarrow> commands a' pname \<noteq> None)
      \<and> (case failure (snd it) of
            Some e \<Rightarrow>
              is_TypeError e
              \<or> Log ERROR (''Failed to register command: '' @ fst it @ '' in plugin: '' @ pname)
                   \<in> set (logging a')
          | None \<Rightarrow> True))"

definition handled :: "'c plugin \<Rightarrow> ('c, 'w) app \<Rightarrow> bool" where
  "handled p a' =
     (is_pkg p \<longrightarrow>
        (case import_module p of
           Inl e \<Rightarrow> Log ERROR (''Failed to load plugin: '' @ plugin_name p) \<in> set (logging a')
         | Inr items \<Rightarrow> list_all (\<lambda>it. item_handled (plugin_name p) it a') items))"

section \<open>A model of the pandas CSV writer and reader\<close>

text \<open>
  \<open>to_csv(path, index=False)\<close> writes the column names and then, for each row, the
  text of each cell; the missing value is written as the empty field.
\<close>

fun cell_text :: "pyval \<Rightarrow> string" where
  "cell_text PNaN = []"
| "cell_text v = py_str v"

definition pandas_format :: "string list \<Rightarrow> pyval list list \<Rightarrow> csv_file" where
  "pandas_format cols recs = cols # map (map cell_text) recs"

text \<open>
  \<open>read_csv(path)\<close> with its default arguments decides the type of each column from
  its fields. A field that is one of the default missing-value markers stands for
  NaN. A column whose fields are all integers becomes a column of integers, a column
  of the words for true and false a column of booleans, and a column with a field
  that is neither a number nor such a word keeps its fields as texts. The model
  answers only where this is certain: a field is \<open>KUnknown\<close> when it might be read as
  a floating point number, when it is a number not written the way \<open>str\<close> writes an
  \<open>int\<close>, or when it is \<open>None\<close>, which only some versions of pandas take for a
  marker; a column that would hold floating point numbers has no answer.
\<close>

definition na_values :: "string list" where
  "na_values = [[], ''#N/A'', ''#N/A N/A'', ''#NA'', ''-1.#IND'', ''-1.#QNAN'', ''-NaN'', ''-nan'',
                ''1.#IND'', ''1.#QNAN'', ''<NA>'', ''N/A'', ''NA'', ''NULL'', ''NaN'', ''n/a'',
                ''nan'', ''null'']"

datatype field_kind = KNA | KInt int | KBool bool | KText | KUnknown

definition is_digit :: "char \<Rightarrow> bool" where
  "is_digit c = (c \<in> set ''0123456789'')"

definition digit_value :: "char \<Rightarrow> nat" where
  "digit_value c = length (takeWhile (\<lambda>d. d \<noteq> c) ''0123456789'')"

definition digits_value :: "string \<Rightarrow> nat" where
  "digits_value ds = foldl (\<lambda>a c. 10 * a + digit_value c) 0 ds"

text \<open>The integer that a field denotes, if the field is written as \<open>str\<close> writes it.\<close>

definition int_literal :: "string \<Rightarrow> int option" where
  "int_literal f =
     (case f of
        [] \<Rightarrow> None
      | c # cs \<Rightarrow>
          if c = CHR ''-'' then
            (if cs \<noteq> [] \<and> list_all is_digit cs \<and> show_int (- int (digits_value cs)) = f
             then Some (- int (digits_value cs)) else None)
          else
            (if list_all is_digit f \<and> show_int (int (digits_value f)) = f
             then Some (int (digits_value f)) else None))"

text \<open>
  A field that no number parser accepts: it has a character that is neither white
  space nor part of a decimal number, and it is not a spelling of infinity.
\<close>

definition certainly_text :: "string \<Rightarrow> bool" where
  "certainly_text f =
     (list_ex (\<lambda>c. c \<notin> set ''0123456789+-.eE'' \<and> \<not> py_isspace c) f
      \<and> lower (strip f) \<notin> set [''inf'', ''+inf'', ''-inf'', ''infinity'', ''+infinity'', ''-infinity''])"

definition classify :: "string \<Rightarrow> field_kind" where
  "classify f =
     (if f \<in> set na_values then KNA
      else if f = ''None'' then KUnknown
      else case int_literal f of
             Some i \<Rightarrow> if - (2 ^ 63) \<le> i \<and> i < 2 ^ 63 then KInt i else KUnknown
           | None \<Rightarrow>
               if f \<in> set [''True'', ''TRUE'', ''true''] then KBool True
               else if f \<in> set [''False'', ''FALSE'', ''false''] then KBool False
               else if certainly_text f then KText
               else KUnknown)"

datatype column_kind = CInt | CBool | CAllNA | CObject

fun is_KInt :: "field_kind \<Rightarrow> bool" where
  "is_KInt (KInt i) = True"
| "is_KInt k = False"

fun is_KBool :: "field_kind \<Rightarrow> bool" where
  "is_KBool (KBool b) = True"
| "is_KBool k = False"

text \<open>The type of a column from the kinds of its fields; \<open>None\<close> where the model has no answer.\<close>

definition decide :: "field_kind list \<Rightarrow> column_kind option" where
  "decide ks =
     (if ks = [] then Some CObject
      else if KUnknown \<in> set ks then None
      else if list_all (\<lambda>k. k = KNA) ks then Some CAllNA
      else if list_all is_KInt ks then Some CInt
      else if list_all (\<lambda>k. is_KInt k \<or> k = KNA) ks then None
      else if list_all is_KBool ks then Some CBool
      else if list_all (\<lambda>k. is_KBool k \<or> k = KNA) ks then None
      else Some CObject)"

fun convert :: "column_kind \<Rightarrow> string \<Rightarrow> pyval" where
  "convert CInt f = (case classify f of KInt i \<Rightarrow> PInt i | k \<Rightarrow> PNaN)"
| "convert CBool f = (case classify f of KBool b \<Rightarrow> PBool b | k \<Rightarrow> PNaN)"
| "convert CAllNA f = PNaN"
| "convert CObject f = (if classify f = KNA then PNaN else PStr f)"

text \<open>
  The reader: an empty file raises; otherwise the first record names the columns.
  The model answers for a header of distinct, non-empty names and records that have
  as many fields as the header.
\<close>

definition column_kinds :: "nat \<Rightarrow> string list list \<Rightarrow> column_kind option list" where
  "column_kinds n recs = map (\<lambda>j. decide (map (\<lambda>r. classify (r ! j)) recs)) [0..<n]"

definition pandas_parse :: "csv_file \<Rightarrow> (pyexception + (string list \<times> pyval list list)) option" where
  "pandas_parse file =
     (case file of
        [] \<Rightarrow> Some (Inl (Exception ''No columns to parse from file''))
      | header # recs \<Rightarrow>
          if header \<noteq> [] \<and> distinct header \<and> [] \<notin> set header
             \<and> list_all (\<lambda>r. length r = length header) recs
             \<and> None \<notin> set (column_kinds (length header) recs)
          then Some (Inr (header,
                 map (\<lambda>r. map (\<lambda>(k, f). case k of Some c \<Rightarrow> convert c f | None \<Rightarrow> PNaN)
                            (zip (column_kinds (length header) recs) r)) recs))
          else None)"

text \<open>
  A pandas that agrees with the model wherever the model answers, and one such
  pandas for the examples.
\<close>

definition agrees :: "pandas_io \<Rightarrow> bool" where
  "agrees io = (format_csv io = pandas_format
                \<and> (\<forall>file r. pandas_parse file = Some r \<longrightarrow> parse_csv io file = r))"

definition pandas_model :: pandas_io where
  "pandas_model =
     \<lparr>parse_csv = (\<lambda>file. case pandas_parse file of
                            Some r \<Rightarrow> r
                          | None \<Rightarrow> Inl (Exception ''outside the model'')),
      format_csv = pandas_format\<rparr>"

text \<open>
  A sequence of \<open>add_calculation\<close> calls with integer results, each call given by the
  time, the operation, the inputs and the result; and the calls whose texts the
  reader certainly keeps as they are.
\<close>

fun add_all :: "(string \<times> string \<times> pynum list \<times> int) list \<Rightarrow> history_manager \<Rightarrow> history_manager" where
  "add_all [] s = s"
| "add_all ((now, operation, inputs, result) # calls) s =
     add_all calls (snd (add_calculation now operation inputs (PInt result) s))"

definition plain_text :: "string \<Rightarrow> bool" where
  "plain_text f = (classify f = KText)"

fun row_of_call :: "string \<times> string \<times> pynum list \<times> int \<Rightarrow> pyval list" where
  "row_of_call (now, operation, inputs, result) =
     [PStr now, PStr operation, PStr (list_str inputs), PInt result]"

fun plain_call :: "string \<times> string \<times> pynum list \<times> int \<Rightarrow> bool" where
  "plain_call (now, operation, inputs, result) =
     (plain_text now \<and> plain_text operation \<and> - (2 ^ 63) \<le> result \<and> result < 2 ^ 63)"

section \<open>Example data\<close>

text \<open>
  A process without files and without environment variables, and a store with two
  entries. No file is read in the examples; \<open>example_io\<close> stands for a pandas that
  cannot read and writes the empty file.
\<close>

definition example_io :: pandas_io where
  "example_io = \<lparr>parse_csv = (\<lambda>t. Inl (Exception ''No columns to parse from file'')),
                 format_csv = (\<lambda>cols recs. [])\<rparr>"

definition empty_store :: history_manager where
  "empty_store =
     (case init example_io Map.empty Map.empty new_object of Inr s \<Rightarrow> s | Inl e \<Rightarrow> new_object)"

definition one_entry :: history_manager where
  "one_entry =
     snd (add_calculation ''2024-01-01 10:00:00'' ''add'' [NInt 1, NInt 2] (PInt 3) empty_store)"


definition empty_process :: process where
  "empty_process = \<lparr>environ = Map.empty, files = Map.empty, cls_instance = None\<rparr>"

text \<open>
  An application without commands, three behaviours of \<open>execute_command\<close> (return,
  raise an \<open>Exception\<close>, raise \<open>SystemExit\<close> as a command that calls \<open>sys.exit()\<close>
  does), and four plugins: one whose import fails, one whose command type cannot be
  constructed without arguments (\<open>TypeError\<close>), one whose constructor raises another
  exception, and one that works.
\<close>

definition example_app :: "(string, unit) app" where
  "example_app = \<lparr>commands = Map.empty, stdout = [], logging = [], world = ()\<rparr>"

definition returning_command ::
  "string \<Rightarrow> (string, unit) app \<Rightarrow> pyexception option \<times> (string, unit) app" where
  "returning_command name a = (None, a)"

definition failing_command ::
  "string \<Rightarrow> (string, unit) app \<Rightarrow> pyexception option \<times> (string, unit) app" where
  "failing_command name a = (Some (Exception ''division by zero''), a)"

definition exiting_command ::
  "string \<Rightarrow> (string, unit) app \<Rightarrow> pyexception option \<times> (string, unit) app" where
  "exiting_command name a = (Some (SystemExit ExitNone), a)"

definition unimportable_plugin :: "string plugin" where
  "unimportable_plugin =
     \<lparr>plugin_name = ''broken'', is_pkg = True,
      import_module = Inl (Exception ''No module named numpy'')\<rparr>"

definition needs_argument_plugin :: "string plugin" where
  "needs_argument_plugin =
     \<lparr>plugin_name = ''report'', is_pkg = True,
      import_module = Inr [(''ReportCommand'',
        CommandClass ''ReportCommand'' (Inr [''self'', ''registry''])
          (\<lambda>with_handler. Inl (TypeError ''__init__() missing 1 required positional argument'')))]\<rparr>"

definition raising_plugin :: "string plugin" where
  "raising_plugin =
     \<lparr>plugin_name = ''stats'', is_pkg = True,
      import_module = Inr [(''StatsCommand'',
        CommandClass ''StatsCommand'' (Inr [''self''])
          (\<lambda>with_handler. Inl (Exception ''no data'')))]\<rparr>"

definition working_plugin :: "string plugin" where
  "working_plugin =
     \<lparr>plugin_name = ''add'', is_pkg = True,
      import_module = Inr [(''AddCommand'',
        CommandClass ''AddCommand'' (Inr [''self'']) (\<lambda>with_handler. Inr ''AddCommand'')),
        (''Command'', CommandBase), (''logging'', NotAClass)]\<rparr>"

text \<open>
  Construct the store, add a calculation without saving, construct the store again;
  the result is what the second \<open>HistoryManager()\<close> returns.
\<close>

definition unsaved_then_constructed :: "pyexception + history_manager \<times> process" where
  "unsaved_then_constructed =
     (case HistoryManager example_io empty_process of
        Inl e \<Rightarrow> Inl e
      | Inr (h, p) \<Rightarrow>
          (let (r, h') = add_calculation ''2024-01-01 10:00:00'' ''add'' [NInt 1, NInt 2] (PInt 3) h
           in HistoryManager example_io (p\<lparr>cls_instance := Some h'\<rparr>)))"

text \<open>
  A store with one entry whose operation is called \<open>NA\<close>, and saving a store to an
  empty file system and loading it again with the pandas of the model.
\<close>

definition na_entry :: history_manager where
  "na_entry =
     snd (add_calculation ''2024-01-01 10:00:00'' ''NA'' [NInt 1, NInt 2] (PInt 3) empty_store)"

definition saved_and_loaded :: "history_manager \<Rightarrow> pyexception \<times> history_manager + history_manager" where
  "saved_and_loaded s =
     (let (ok, s1, fs1) = save_history pandas_model Map.empty s
      in load_history pandas_model fs1 s1)"

section \<open>Properties of the history table\<close>
















lemma empty_store_eval:
  "init example_io Map.empty Map.empty new_object = Inr empty_store"
  by (simp add: empty_store_def init_def new_object_def blank_object_def load_history_def
        emit_def Let_def environ_get_def)


lemma df_empty_store:
  "df empty_store = \<lparr>df_columns = [''timestamp'', ''operation'', ''inputs'', ''result''], df_rows = []\<rparr>"
  by (simp add: empty_store_def init_def new_object_def blank_object_def load_history_def
        emit_def Let_def DataFrame_columns_def environ_get_def)

lemma list_str_1_2: "list_str [NInt 1, NInt 2] = ''[1, 2]''"
  by (simp add: list_str_def show_int_def show_nat.simps digit_def)


lemma df_one_entry:
  "df one_entry = \<lparr>df_columns = [''timestamp'', ''operation'', ''inputs'', ''result''],
      df_rows = [(0, [PStr ''2024-01-01 10:00:00'', PStr ''add'', PStr ''[1, 2]'', PInt 3])]\<rparr>"
  by (simp add: one_entry_def add_calculation_def Let_def emit_def df_empty_store list_str_1_2
        concat_ignore_index_def DataFrame_row_def entries_def relabel_def range_index_def
        reindex_cells_def)











section \<open>Properties of the dispatch loop\<close>

lemma turn_exit:
  assumes "lower (strip l) = ''exit''"
  shows "turn execute_command (Line l) a
           = Raised (SystemExit (ExitStr ''Exiting the program''))
               (print ''Exiting the program....''
                  (log_root INFO ''Exit command entered. Exiting the program'' (print ''>>>'' a)))"
  using assms by (simp add: turn_def try_body_def Let_def)

lemma turn_command:
  assumes "lower (strip l) \<noteq> ''exit''"
    and "execute_command (strip l)
           (log_root DEBUG (''Executing command: '' @ strip l) (print ''>>>'' a)) = (r, a1)"
  shows "turn execute_command (Line l) a
           = (case r of
                None \<Rightarrow> Running a1
              | Some e \<Rightarrow>
                  if is_Exception e
                  then Running (log_root ERROR
                         (''An error occurred while executing command ''
                            @ quoted (if strip l \<noteq> [] then strip l else ''<unknown>'')
                            @ '': '' @ exc_str e) a1)
                  else Raised e a1)"
  using assms by (simp add: turn_def try_body_def Let_def split: option.splits)

lemma strip_exit_upper: "lower (strip ''  EXIT '') = ''exit''"
  by (simp add: strip_def py_isspace_def lower_def py_lower_def)

lemma strip_exit: "lower (strip ''exit'') = ''exit''"
  by (simp add: strip_def py_isspace_def lower_def py_lower_def)

lemma strip_divide: "strip ''divide '' = ''divide''"
  by (simp add: strip_def py_isspace_def)

lemma lower_divide: "lower ''divide'' \<noteq> ''exit''"
  by (simp add: lower_def py_lower_def)

text \<open>
  C3, as the code has it. For every input line whose trimmed form equals \<open>exit\<close>
  when letter case is ignored, whatever \<open>execute_command\<close> is and whatever input
  would follow, the loop writes the farewell to standard output and ends by raising
  \<open>SystemExit('Exiting the program')\<close>, which its own handler does not catch. The
  argument of that \<open>SystemExit\<close> is a text, so the status of the process is 1.
\<close>

theorem exit_command_ends_loop:
  assumes "lower (strip l) = ''exit''"
  shows "\<exists>a'. loop execute_command (Line l # rest) a
                  = Raised (SystemExit (ExitStr ''Exiting the program'')) a'
             \<and> stdout a' = stdout a @ [''>>>'', ''Exiting the program....'']
             \<and> commands a' = commands a \<and> world a' = world a
             \<and> process_status (loop execute_command (Line l # rest) a) = Some 1"
  using assms by (simp add: turn_exit print_def log_root_def)

theorem exit_command_ends_loop_witness:
  "lower (strip ''  EXIT '') = ''exit''
   \<and> raised_by (loop returning_command [Line ''  EXIT '', Line ''add''] example_app)
       = Some (SystemExit (ExitStr ''Exiting the program''))
   \<and> process_status (loop returning_command [Line ''  EXIT '', Line ''add''] example_app) = Some 1"
  using exit_command_ends_loop [OF strip_exit_upper,
      of returning_command "[Line ''add'']" example_app]
  by (auto simp: strip_exit_upper)

text \<open>
  The claim C3 as stated fails: after the input \<open>exit\<close> the status of the process is
  1, not the 0 that reports success.
\<close>

theorem exit_status_counterexample:
  "process_status (start [] returning_command [Line ''exit''] example_app) = Some 1
   \<and> process_status (start [] returning_command [Line ''exit''] example_app) \<noteq> Some 0"
  by (simp add: start_def load_plugins_def turn_exit [OF strip_exit])

text \<open>
  C7, as the code has it. For every input line that is not the exit token, if
  resolving or executing the command raises an exception of class \<open>Exception\<close>, the
  loop logs an error that names the trimmed input (\<open><unknown>\<close> when it is empty)
  and goes on with the next input.
\<close>

theorem failing_command_is_contained:
  assumes "lower (strip l) \<noteq> ''exit''"
    and "execute_command (strip l)
           (log_root DEBUG (''Executing command: '' @ strip l) (print ''>>>'' a)) = (Some e, a1)"
    and "is_Exception e"
  shows "loop execute_command (Line l # rest) a
           = loop execute_command rest
               (log_root ERROR
                  (''An error occurred while executing command ''
                     @ quoted (if strip l \<noteq> [] then strip l else ''<unknown>'')
                     @ '': '' @ exc_str e) a1)"
  using assms by (simp add: turn_command)

theorem failing_command_is_contained_witness:
  "lower (strip ''divide '') \<noteq> ''exit''
   \<and> is_Exception (Exception ''division by zero'')
   \<and> loop failing_command [Line ''divide ''] example_app
       = Running (example_app
           \<lparr>stdout := [''>>>''],
            logging := [Log DEBUG ''Executing command: divide'',
                        Log ERROR (''An error occurred while executing command ''
                                     @ quoted ''divide'' @ '': division by zero'')]\<rparr>)"
  using failing_command_is_contained [of "''divide ''" failing_command example_app
      "Exception ''division by zero''" _ "[]"]
  by (simp add: strip_divide lower_divide failing_command_def log_root_def print_def
        example_app_def)

text \<open>
  The claim C7 as stated fails for an exception outside \<open>Exception\<close>: a command that
  raises \<open>SystemExit\<close> ends the loop.
\<close>

theorem failing_command_counterexample:
  "raised_by (loop exiting_command [Line ''divide '', Line ''add''] example_app)
     = Some (SystemExit ExitNone)"
  by (simp add: turn_command [where r = "Some (SystemExit ExitNone)"] strip_divide lower_divide exiting_command_def
        turn_def try_body_def Let_def)


section \<open>Properties of the plugin loader\<close>

lemma grows_refl: "grows a a"
  by (simp add: grows_def)

lemma grows_trans: "grows a b \<Longrightarrow> grows b c \<Longrightarrow> grows a c"
  unfolding grows_def by (blast intro: order_trans)

lemma grows_log_root: "grows a (log_root l m a)"
  by (auto simp: grows_def log_root_def)

lemma grows_register: "grows a (register_command n c a)"
  by (auto simp: grows_def register_command_def)

lemma grows_item_failed: "grows a (snd (item_failed pname n e a))"
  by (auto simp: item_failed_def grows_def log_root_def)

lemma grows_load_item: "grows a (snd (load_item pname it a))"
proof (cases "snd it")
  case (CommandClass cname sig ctor)
  let ?a1 = "log_root DEBUG (''Found command: '' @ cname @ '' in plugin: '' @ pname) a"
  have a1: "grows a ?a1" by (rule grows_log_root)
  have "grows ?a1 (snd (load_item pname it a))"
    using CommandClass
    by (auto simp: load_item_def Let_def grows_item_failed
          intro: grows_trans [OF grows_register grows_log_root] split: sum.splits)
  with a1 show ?thesis by (rule grows_trans)
qed (simp_all add: load_item_def grows_refl grows_item_failed)

lemma grows_load_items: "grows a (snd (load_items pname its a))"
proof (induction its arbitrary: a)
  case Nil
  show ?case by (simp add: grows_refl)
next
  case (Cons it its)
  show ?case
  proof (cases "load_item pname it a")
    case (Pair r a')
    with grows_load_item [of a pname it] have g: "grows a a'" by simp
    show ?thesis
    proof (cases r)
      case None
      with Pair g Cons.IH [of a'] show ?thesis by (auto intro: grows_trans)
    next
      case (Some e)
      with Pair g show ?thesis by simp
    qed
  qed
qed

lemma grows_load_plugin: "grows a (snd (load_plugin p a))"
proof (cases "is_pkg p")
  case False
  then show ?thesis by (simp add: load_plugin_def grows_refl)
next
  case True
  show ?thesis
  proof (cases "import_module p")
    case (Inl e)
    with True show ?thesis by (simp add: load_plugin_def grows_refl grows_log_root)
  next
    case (Inr items)
    let ?a1 = "log_root DEBUG (''Loaded Plugin: '' @ plugin_name p) a"
    obtain r a2 where l: "load_items (plugin_name p) items ?a1 = (r, a2)"
      by (cases "load_items (plugin_name p) items ?a1")
    have "grows ?a1 a2"
      using grows_load_items [of ?a1 "plugin_name p" items] l by simp
    with grows_log_root have g: "grows a a2" by (rule grows_trans)
    show ?thesis
    proof (cases r)
      case None
      with True Inr l have "snd (load_plugin p a) = log_root INFO ''Completed loading plugins'' a2"
        by (simp add: load_plugin_def)
      with g grows_log_root [of a2] show ?thesis by (auto intro: grows_trans)
    next
      case (Some e)
      with True Inr l have "snd (load_plugin p a) = a2"
        by (simp add: load_plugin_def)
      with g show ?thesis by simp
    qed
  qed
qed

lemma grows_load_each: "grows a (snd (load_each ps a))"
proof (induction ps arbitrary: a)
  case Nil
  show ?case by (simp add: grows_refl)
next
  case (Cons p ps)
  show ?case
  proof (cases "load_plugin p a")
    case (Pair r a')
    with grows_load_plugin [of a p] have g: "grows a a'" by simp
    show ?thesis
    proof (cases r)
      case None
      with Pair g Cons.IH [of a'] show ?thesis by (auto intro: grows_trans)
    next
      case (Some e)
      with Pair g show ?thesis by simp
    qed
  qed
qed

lemma item_handled_grows: "item_handled pname it a \<Longrightarrow> grows a a' \<Longrightarrow> item_handled pname it a'"
  by (auto simp: item_handled_def grows_def split: option.splits)

lemma handled_grows: "handled p a \<Longrightarrow> grows a a' \<Longrightarrow> handled p a'"
  by (auto simp: handled_def grows_def list_all_iff split: sum.splits
        intro: item_handled_grows [unfolded grows_def])

text \<open>One candidate: what \<open>load_item\<close> comes to, by the fate of the candidate.\<close>

lemma item_failed_handled:
  assumes "is_Exception e"
  shows "fst (item_failed pname n e a) = None"
    and "is_TypeError e \<or> Log ERROR (''Failed to register command: '' @ n @ '' in plugin: '' @ pname)
           \<in> set (logging (snd (item_failed pname n e a)))"
  using assms by (simp_all add: item_failed_def log_root_def)

lemma load_item_failure:
  assumes "failure (snd it) = Some e"
  shows "\<exists>a1. load_item pname it a = item_failed pname (fst it) e a1"
proof (cases "snd it")
  case (CommandClass cname sig ctor)
  show ?thesis
  proof (cases sig)
    case (Inl e')
    with CommandClass assms show ?thesis
      by (auto simp: load_item_def Let_def)
  next
    case (Inr params)
    with CommandClass assms have "ctor (''command_handler'' \<in> set params) = Inl e"
      by (simp split: sum.splits)
    with CommandClass Inr show ?thesis
      by (cases "''command_handler'' \<in> set params") (auto simp: load_item_def Let_def)
  qed
qed (use assms in simp_all)

lemma load_item_constructs:
  assumes "constructs (snd it)"
  shows "\<exists>c m a1. load_item pname it a = (None, log_root INFO m (register_command pname c a1))"
proof (cases "snd it")
  case (CommandClass cname sig ctor)
  show ?thesis
  proof (cases sig)
    case (Inl e')
    with CommandClass assms show ?thesis by simp
  next
    case (Inr params)
    with CommandClass assms obtain c where "ctor (''command_handler'' \<in> set params) = Inr c"
      by (auto split: sum.splits)
    with CommandClass Inr show ?thesis
      by (cases "''command_handler'' \<in> set params") (auto simp: load_item_def Let_def)
  qed
qed (use assms in simp_all)

lemma load_item_neither:
  assumes "failure (snd it) = None" "\<not> constructs (snd it)"
  shows "load_item pname it a = (None, a)"
proof (cases "snd it")
  case (CommandClass cname sig ctor)
  show ?thesis
  proof (cases sig)
    case (Inl e')
    with CommandClass assms show ?thesis by simp
  next
    case (Inr params)
    with CommandClass assms show ?thesis by (simp split: sum.splits)
  qed
qed (simp_all add: load_item_def item_failed_def)

lemma load_item_handled:
  assumes "case failure (snd it) of Some e \<Rightarrow> is_Exception e | None \<Rightarrow> True"
  shows "fst (load_item pname it a) = None \<and> item_handled pname it (snd (load_item pname it a))"
proof (cases "failure (snd it)")
  case (Some e)
  then have nc: "\<not> constructs (snd it)"
    by (cases "snd it" rule: constructs.cases) (auto split: sum.splits)
  from Some assms have e: "is_Exception e" by simp
  from load_item_failure [OF Some] obtain a1
    where "load_item pname it a = item_failed pname (fst it) e a1" by blast
  with item_failed_handled [OF e, where pname = pname and n = "fst it" and a = a1] Some nc show ?thesis
    by (simp add: item_handled_def)
next
  case None
  show ?thesis
  proof (cases "constructs (snd it)")
    case True
    from load_item_constructs [OF True] obtain c m a1
      where "load_item pname it a = (None, log_root INFO m (register_command pname c a1))" by blast
    with None show ?thesis
      by (simp add: item_handled_def log_root_def register_command_def)
  next
    case False
    with None show ?thesis
      by (simp add: load_item_neither item_handled_def)
  qed
qed

lemma load_items_handled:
  assumes "list_all (\<lambda>it. case failure (snd it) of Some e \<Rightarrow> is_Exception e | None \<Rightarrow> True) its"
  shows "fst (load_items pname its a) = None
       \<and> list_all (\<lambda>it. item_handled pname it (snd (load_items pname its a))) its"
  using assms
proof (induction its arbitrary: a)
  case Nil
  show ?case by simp
next
  case (Cons it its)
  from Cons.prems have it: "case failure (snd it) of Some e \<Rightarrow> is_Exception e | None \<Rightarrow> True"
    and its: "list_all (\<lambda>it. case failure (snd it) of Some e \<Rightarrow> is_Exception e | None \<Rightarrow> True) its"
    by simp_all
  obtain a' where a': "load_item pname it a = (None, a')" and h: "item_handled pname it a'"
    using load_item_handled [OF it, of pname a] by (cases "load_item pname it a") auto
  have rest: "load_items pname (it # its) a = load_items pname its a'"
    using a' by simp
  from Cons.IH [OF its, of a'] have ih: "fst (load_items pname its a') = None"
    "list_all (\<lambda>it. item_handled pname it (snd (load_items pname its a'))) its" by simp_all
  have "item_handled pname it (snd (load_items pname its a'))"
    using h grows_load_items by (rule item_handled_grows)
  with ih rest show ?case by simp
qed

lemma load_plugin_handled:
  assumes "fails_with_Exception p"
  shows "fst (load_plugin p a) = None \<and> handled p (snd (load_plugin p a))"
proof (cases "is_pkg p")
  case False
  then show ?thesis by (simp add: load_plugin_def handled_def)
next
  case True
  show ?thesis
  proof (cases "import_module p")
    case (Inl e)
    with True assms show ?thesis
      by (simp add: load_plugin_def handled_def fails_with_Exception_def log_root_def)
  next
    case (Inr items)
    let ?a1 = "log_root DEBUG (''Loaded Plugin: '' @ plugin_name p) a"
    from Inr assms have "list_all (\<lambda>it. case failure (snd it) of Some e \<Rightarrow> is_Exception e | None \<Rightarrow> True) items"
      by (simp add: fails_with_Exception_def)
    from load_items_handled [OF this, of "plugin_name p" ?a1]
    obtain a2 where a2: "load_items (plugin_name p) items ?a1 = (None, a2)"
      and h: "list_all (\<lambda>it. item_handled (plugin_name p) it a2) items"
      by (cases "load_items (plugin_name p) items ?a1") auto
    have "list_all (\<lambda>it. item_handled (plugin_name p) it (log_root INFO ''Completed loading plugins'' a2)) items"
      using h by (auto simp: list_all_iff intro: item_handled_grows grows_log_root)
    with True Inr a2 show ?thesis
      by (simp add: load_plugin_def handled_def)
  qed
qed

lemma load_each_handled:
  assumes "list_all fails_with_Exception ps"
  shows "fst (load_each ps a) = None \<and> list_all (\<lambda>p. handled p (snd (load_each ps a))) ps"
  using assms
proof (induction ps arbitrary: a)
  case Nil
  show ?case by simp
next
  case (Cons p ps)
  from Cons.prems have p: "fails_with_Exception p" and ps: "list_all fails_with_Exception ps"
    by simp_all
  obtain a' where a': "load_plugin p a = (None, a')" and h: "handled p a'"
    using load_plugin_handled [OF p, of a] by (cases "load_plugin p a") auto
  have rest: "load_each (p # ps) a = load_each ps a'"
    using a' by simp
  from Cons.IH [OF ps, of a'] have ih: "fst (load_each ps a') = None"
    "list_all (\<lambda>p. handled p (snd (load_each ps a'))) ps" by simp_all
  have "handled p (snd (load_each ps a'))"
    using h grows_load_each by (rule handled_grows)
  with ih rest show ?case by simp
qed

text \<open>
  C9, as the code has it. When the failures of the plugins are exceptions of class
  \<open>Exception\<close>, \<open>load_plugins\<close> runs to its end and every package of the directory is
  handled, whatever the other plugins do: a failed import is logged as an error; a
  command type whose construction or registration fails with an exception other
  than \<open>TypeError\<close> is logged as an error; a command type that constructs is
  registered under the name of its plugin. A \<open>TypeError\<close> is skipped without a log
  record.
\<close>

theorem load_plugins_tolerates_failures:
  assumes "list_all fails_with_Exception ps"
  shows "fst (load_plugins ps a) = None
       \<and> list_all (\<lambda>p. handled p (snd (load_plugins ps a))) ps"
  unfolding load_plugins_def by (rule load_each_handled [OF assms])

lemma load_example_plugins:
  "load_plugins [unimportable_plugin, needs_argument_plugin, raising_plugin, working_plugin] example_app
     = (None, example_app
         \<lparr>commands := [''add'' \<mapsto> ''AddCommand''],
          logging := [Log INFO ''Loading Plugins'',
            Log ERROR ''Failed to load plugin: broken'',
            Log DEBUG ''Loaded Plugin: report'',
            Log DEBUG ''Found command: ReportCommand in plugin: report'',
            Log INFO ''Completed loading plugins'',
            Log DEBUG ''Loaded Plugin: stats'',
            Log DEBUG ''Found command: StatsCommand in plugin: stats'',
            Log ERROR ''Failed to register command: StatsCommand in plugin: stats'',
            Log ERROR ''no data'',
            Log INFO ''Completed loading plugins'',
            Log DEBUG ''Loaded Plugin: add'',
            Log DEBUG ''Found command: AddCommand in plugin: add'',
            Log INFO ''Registered command: AddCommand in plugin: add'',
            Log INFO ''Completed loading plugins'']\<rparr>)"
  by (simp add: load_plugins_def load_plugin_def load_item_def item_failed_def Let_def
        unimportable_plugin_def needs_argument_plugin_def raising_plugin_def working_plugin_def
        example_app_def log_root_def register_command_def)

theorem load_plugins_tolerates_failures_witness:
  "list_all fails_with_Exception
     [unimportable_plugin, needs_argument_plugin, raising_plugin, working_plugin]
   \<and> fst (load_plugins [unimportable_plugin, needs_argument_plugin, raising_plugin, working_plugin]
            example_app) = None
   \<and> handled working_plugin
        (snd (load_plugins [unimportable_plugin, needs_argument_plugin, raising_plugin, working_plugin]
               example_app))
   \<and> commands (snd (load_plugins
         [unimportable_plugin, needs_argument_plugin, raising_plugin, working_plugin] example_app))
        ''add'' = Some ''AddCommand''"
proof -
  have h: "list_all fails_with_Exception
     [unimportable_plugin, needs_argument_plugin, raising_plugin, working_plugin]"
    by (simp add: fails_with_Exception_def unimportable_plugin_def needs_argument_plugin_def
          raising_plugin_def working_plugin_def)
  from load_plugins_tolerates_failures [OF h, of example_app] h show ?thesis
    by (simp add: load_example_plugins)
qed

text \<open>
  The claim C9 as stated fails: the command type of a plugin whose constructor needs
  an argument that the loader does not pass raises \<open>TypeError\<close>; the loader goes on,
  but no record of the failure is logged.
\<close>

theorem load_plugins_counterexample:
  "failure (CommandClass ''ReportCommand'' (Inr [''self'', ''registry''])
      (\<lambda>with_handler. Inl (TypeError ''__init__() missing 1 required positional argument'')))
     = Some (TypeError ''__init__() missing 1 required positional argument'')
   \<and> logging (snd (load_plugins [needs_argument_plugin] example_app))
     = [Log INFO ''Loading Plugins'',
        Log DEBUG ''Loaded Plugin: report'',
        Log DEBUG ''Found command: ReportCommand in plugin: report'',
        Log INFO ''Completed loading plugins'']"
  by (simp add: load_plugins_def load_plugin_def load_item_def item_failed_def Let_def
        needs_argument_plugin_def example_app_def log_root_def)


section \<open>Properties of the singleton\<close>

lemma mangled_initialized:
  "mangle ''HistoryManager'' ''__initialized'' = ''_HistoryManager__initialized''"
  by (simp add: mangle_def suffix_def)

lemma attrs_emit [simp]: "attrs (emit l m s) = attrs s"
  by (simp add: emit_def)

text \<open>No method ever sets an attribute of the name that the guard of \<open>__init__\<close> reads.\<close>

lemma init_keeps_guard_open:
  "init io env fs s = Inr s' \<Longrightarrow> attrs s ''__initialized'' = None \<Longrightarrow> attrs s' ''__initialized'' = None"
  by (auto simp: init_def Let_def load_history_def mangled_initialized
        split: if_splits sum.splits option.splits prod.splits)

lemma reachable_guard_open: "reachable s \<Longrightarrow> attrs s ''__initialized'' = None"
proof (induction rule: reachable.induct)
  case (constructed io env fs s)
  then show ?case
    by (rule init_keeps_guard_open) (simp add: new_object_def blank_object_def mangled_initialized)
next
  case (constructed_again s io env fs s')
  then show ?case by (blast intro: init_keeps_guard_open)
next
  case (added s now operation inputs result)
  then show ?case by (simp add: add_calculation_def Let_def)
next
  case (saved s io fs)
  then show ?case by (simp add: save_history_def split: sum.splits)
next
  case (cleared s)
  then show ?case by (simp add: clear_history_def)
next
  case (deleted s i)
  then show ?case by (auto simp: delete_entry_def split: sum.splits)
next
  case (searched s "term" d s')
  then show ?case by (auto simp: search_history_def split: if_splits re_result.splits)
qed

text \<open>With the guard open, \<open>__init__\<close> sets the table from the file alone.\<close>

lemma init_reloads:
  assumes "attrs s ''__initialized'' = None" and "init io env fs s = Inr s'"
  shows "df s' =
           (case fs (environ_get env ''HISTORY_FILE'' ''data/calculation_history.csv'') of
              None \<Rightarrow> DataFrame_columns [''timestamp'', ''operation'', ''inputs'', ''result'']
            | Some text \<Rightarrow>
                (case read_csv io text of
                   Inr d \<Rightarrow> d
                 | Inl e \<Rightarrow> DataFrame_columns [''timestamp'', ''operation'', ''inputs'', ''result'']))"
    and "history_file s' = environ_get env ''HISTORY_FILE'' ''data/calculation_history.csv''"
  using assms
  by (auto simp: init_def Let_def load_history_def emit_def
        split: if_splits sum.splits option.splits prod.splits)

lemma init_file_absent:
  assumes "attrs s ''__initialized'' = None"
    and "fs (environ_get env ''HISTORY_FILE'' ''data/calculation_history.csv'') = None"
  shows "\<exists>s'. init io env fs s = Inr s'"
  using assms by (simp add: init_def Let_def load_history_def emit_def)

lemma init_one_entry:
  "\<exists>s'. init example_io Map.empty Map.empty one_entry = Inr s'"
  by (rule init_file_absent)
    (simp_all add: environ_get_def reachable_guard_open reachable.added
       reachable.constructed [OF empty_store_eval] one_entry_def)

text \<open>
  C1, where the code departs from it. On every state that the methods produce, a
  further construction \<open>HistoryManager()\<close> runs the initialisation again: the table
  after it is what the file holds (the empty table when there is no file or it
  cannot be read), whatever the table in memory was.
\<close>

theorem construction_reloads_every_time:
  assumes "reachable s" and "init io env fs s = Inr s'"
  shows "df s' =
           (case fs (environ_get env ''HISTORY_FILE'' ''data/calculation_history.csv'') of
              None \<Rightarrow> DataFrame_columns [''timestamp'', ''operation'', ''inputs'', ''result'']
            | Some text \<Rightarrow>
                (case read_csv io text of
                   Inr d \<Rightarrow> d
                 | Inl e \<Rightarrow> DataFrame_columns [''timestamp'', ''operation'', ''inputs'', ''result'']))"
  using init_reloads(1) [OF reachable_guard_open [OF assms(1)] assms(2)] .

theorem construction_reloads_every_time_witness:
  "reachable one_entry
   \<and> entries (df one_entry) = [[PStr ''2024-01-01 10:00:00'', PStr ''add'', PStr ''[1, 2]'', PInt 3]]
   \<and> (\<exists>s'. init example_io Map.empty Map.empty one_entry = Inr s' \<and> entries (df s') = [])"
proof -
  have r: "reachable one_entry"
    unfolding one_entry_def by (intro reachable.added reachable.constructed [OF empty_store_eval])
  obtain s' where s': "init example_io Map.empty Map.empty one_entry = Inr s'"
    using init_one_entry by blast
  from construction_reloads_every_time [OF r s'] have "entries (df s') = []"
    by (simp add: environ_get_def DataFrame_columns_def entries_def)
  with r s' show ?thesis by (simp add: df_one_entry entries_def)
qed

lemma dirname_default: "dirname ''data/calculation_history.csv'' = ''data''"
  by (simp add: dirname_def rstrip_slash_def Let_def)

lemma HistoryManager_file_absent:
  assumes "files p (environ_get (environ p) ''HISTORY_FILE'' ''data/calculation_history.csv'') = None"
    and "case cls_instance p of Some obj \<Rightarrow> attrs obj ''__initialized'' = None | None \<Rightarrow> True"
  shows "\<exists>h. HistoryManager io p = Inr (h, p\<lparr>cls_instance := Some h\<rparr>)
           \<and> df h = DataFrame_columns [''timestamp'', ''operation'', ''inputs'', ''result'']
           \<and> history_file h = environ_get (environ p) ''HISTORY_FILE'' ''data/calculation_history.csv''
           \<and> attrs h ''__initialized'' = None"
proof -
  obtain obj p1 where n: "new p = (obj, p1)" by (cases "new p")
  with assms(2) have obj: "attrs obj ''__initialized'' = None"
    and p1: "environ p1 = environ p" "files p1 = files p" "p1\<lparr>cls_instance := Some h\<rparr> = p\<lparr>cls_instance := Some h\<rparr>" for h
    by (auto simp: new_def new_object_def blank_object_def mangled_initialized split: option.splits)
  from init_file_absent [where fs = "files p" and env = "environ p" and io = io, OF obj assms(1)] obtain h
    where h: "init io (environ p) (files p) obj = Inr h" by blast
  from init_reloads [OF obj h] init_keeps_guard_open [OF h obj] assms(1) n h p1 show ?thesis
    by (simp add: HistoryManager_def)
qed

text \<open>
  C4, where the code departs from it. Started without a history file and without
  environment variables, \<open>App.__init__\<close> leaves the store without entries and writes
  the file of the empty table: the entry that it added is lost, because the
  \<open>HistoryManager()\<close> in front of \<open>save_history\<close> loads the table again.
\<close>

theorem App_init_loses_its_entry:
  "\<exists>p. App_init io now empty_process = Inr p
       \<and> map_option (\<lambda>h. entries (df h)) (cls_instance p) = Some []
       \<and> files p = [''data/calculation_history.csv''
                      \<mapsto> to_csv io (DataFrame_columns [''timestamp'', ''operation'', ''inputs'', ''result''])]"
proof -
  let ?f = "''data/calculation_history.csv''"
  have e: "environ_get Map.empty ''HISTORY_FILE'' ?f = ?f" by (simp add: environ_get_def)
  obtain h1 where h1: "HistoryManager io empty_process = Inr (h1, empty_process\<lparr>cls_instance := Some h1\<rparr>)"
      "attrs h1 ''__initialized'' = None"
    using HistoryManager_file_absent [of empty_process io] by (auto simp: empty_process_def e)
  let ?p1 = "empty_process\<lparr>cls_instance := Some h1\<rparr>"
  obtain h2 where h2: "HistoryManager io ?p1 = Inr (h2, ?p1\<lparr>cls_instance := Some h2\<rparr>)"
      "attrs h2 ''__initialized'' = None"
    using HistoryManager_file_absent [of ?p1 io] h1(2) by (auto simp: empty_process_def e)
  obtain r h2' where a: "add_calculation now ''add'' [NInt 1, NInt 2] (PInt 3) h2 = (r, h2')"
    by (cases "add_calculation now ''add'' [NInt 1, NInt 2] (PInt 3) h2")
  with h2(2) have h2': "attrs h2' ''__initialized'' = None"
    by (auto simp: add_calculation_def Let_def)
  let ?p2 = "?p1\<lparr>cls_instance := Some h2'\<rparr>"
  obtain h3 where h3: "HistoryManager io ?p2 = Inr (h3, ?p2\<lparr>cls_instance := Some h3\<rparr>)"
      "df h3 = DataFrame_columns [''timestamp'', ''operation'', ''inputs'', ''result'']"
      "history_file h3 = ?f"
    using HistoryManager_file_absent [of ?p2 io] h2' by (auto simp: empty_process_def e)
  have s: "save_history io Map.empty h3
             = (True, emit INFO (''History saved to '' @ ?f) h3, [?f \<mapsto> to_csv io (df h3)])"
    by (simp add: save_history_def h3(3) dirname_default makedirs_def)
  show ?thesis
    using h1(1) h2(1) a h3 s
    by (simp add: App_init_def empty_process_def emit_def DataFrame_columns_def entries_def)
qed


section \<open>Properties of the search\<close>












end
